theory Spec2Isabelle
  imports Main "HOL-Library.Sublist"
begin

section \<open>Severity levels\<close>

text \<open>
  The module compares and switches on the host's severity codes, which are plain C
  \<^verbatim>\<open>int\<close> values. No arithmetic is done on them, so they are modelled as \<^typ>\<open>int\<close>.
\<close>

text \<open>
  Modelled from the spec: the severity constants come from the host header
  \<^verbatim>\<open>utils/elog.h\<close>, which is not among this module's sources. The spec fixes their
  natural order (debug lowest, panic highest, the two log-only variants in between); the
  numbers are those of the host release the module is written for (the one that has
  \<^verbatim>\<open>WARNING_CLIENT_ONLY\<close> and \<^verbatim>\<open>MarkGUCPrefixReserved\<close>).
\<close>

definition DEBUG5 :: int where "DEBUG5 = 10"
definition DEBUG4 :: int where "DEBUG4 = 11"
definition DEBUG3 :: int where "DEBUG3 = 12"
definition DEBUG2 :: int where "DEBUG2 = 13"
definition DEBUG1 :: int where "DEBUG1 = 14"
definition LOG :: int where "LOG = 15"
definition LOG_SERVER_ONLY :: int where "LOG_SERVER_ONLY = 16"
definition INFO :: int where "INFO = 17"
definition NOTICE :: int where "NOTICE = 18"
definition WARNING :: int where "WARNING = 19"
definition WARNING_CLIENT_ONLY :: int where "WARNING_CLIENT_ONLY = 20"
definition ERROR :: int where "ERROR = 21"
definition FATAL :: int where "FATAL = 22"
definition PANIC :: int where "PANIC = 23"

text \<open>\<^verbatim>\<open>#define LOG_LEVEL_NONE 255\<close>\<close>

definition LOG_LEVEL_NONE :: int where "LOG_LEVEL_NONE = 255"

subsection \<open>\<^verbatim>\<open>is_log_level_output\<close>\<close>

text \<open>
  The C function is an \<^verbatim>\<open>if / else if\<close> chain whose branches return \<^verbatim>\<open>true\<close> under
  an inner test and otherwise fall through to the final \<^verbatim>\<open>return false\<close>.
\<close>

definition is_log_level_output :: "int \<Rightarrow> int \<Rightarrow> bool" where
  "is_log_level_output elevel log_min_level =
     (if elevel = LOG \<or> elevel = LOG_SERVER_ONLY then
        (if log_min_level = LOG \<or> log_min_level \<le> ERROR then True else False)
      else if elevel = WARNING_CLIENT_ONLY then False
      else if log_min_level = LOG then
        (if elevel \<ge> FATAL then True else False)
      else if elevel \<ge> log_min_level then True
      else False)"

subsection \<open>\<^verbatim>\<open>intercept_log_severity\<close>\<close>

text \<open>
  The \<^verbatim>\<open>switch\<close> on the severity code, in the order of its \<^verbatim>\<open>case\<close> labels. The labels
  are marked for translation with \<^verbatim>\<open>gettext_noop\<close> and translated by the callers with
  \<^verbatim>\<open>_()\<close>; here and below the message catalogue is taken to be the identity, so that
  every literal label stands for itself.
\<close>

definition intercept_log_severity :: "int \<Rightarrow> string" where
  "intercept_log_severity elevel =
     (if elevel = DEBUG1 then ''DEBUG1''
      else if elevel = DEBUG2 then ''DEBUG2''
      else if elevel = DEBUG3 then ''DEBUG3''
      else if elevel = DEBUG4 then ''DEBUG4''
      else if elevel = DEBUG5 then ''DEBUG5''
      else if elevel = LOG \<or> elevel = LOG_SERVER_ONLY then ''LOG''
      else if elevel = INFO then ''INFO''
      else if elevel = NOTICE then ''NOTICE''
      else if elevel = WARNING \<or> elevel = WARNING_CLIENT_ONLY then ''WARNING''
      else if elevel = ERROR then ''ERROR''
      else if elevel = FATAL then ''FATAL''
      else if elevel = PANIC then ''PANIC''
      else ''???'')"

section \<open>Text buffers\<close>

text \<open>
  A C string is modelled by the list of its characters before the terminating NUL, and a
  \<^verbatim>\<open>StringInfo\<close> buffer by its contents (\<^verbatim>\<open>buf.data\<close>); \<^verbatim>\<open>buf.len\<close> is the length of
  that list. A nullable \<^verbatim>\<open>char *\<close> is a \<^typ>\<open>string option\<close>.
\<close>

abbreviation nl :: char where "nl \<equiv> CHR 0x0A"
abbreviation tab :: char where "tab \<equiv> CHR 0x09"

text \<open>
  \<^verbatim>\<open>append_with_tabs\<close>: the loop \<^verbatim>\<open>while ((ch = *str++) != '\0')\<close> walks the string; the
  empty list is the terminator.
\<close>

fun append_with_tabs :: "string \<Rightarrow> string \<Rightarrow> string" where
  "append_with_tabs buf [] = buf"
| "append_with_tabs buf (ch # str) =
     (let buf = buf @ [ch];
          buf = (if ch = nl then buf @ [tab] else buf)
      in append_with_tabs buf str)"

text \<open>
  The escaping as the spec words it: the text with a tab inserted after each newline, and
  the inverse reading that drops the tab following a newline.
\<close>

definition tab_escape :: "string \<Rightarrow> string" where
  "tab_escape str = concat (map (\<lambda>c. if c = nl then [nl, tab] else [c]) str)"

fun tab_unescape :: "string \<Rightarrow> string" where
  "tab_unescape [] = []"
| "tab_unescape [c] = [c]"
| "tab_unescape (c # d # cs) =
     (if c = nl \<and> d = tab then c # tab_unescape cs else c # tab_unescape (d # cs))"

text \<open>
  Decimal output of \<^verbatim>\<open>printf\<close>: \<^verbatim>\<open>%d\<close>, and \<^verbatim>\<open>%03d\<close> (zero padding to a minimum width
  of three, the sign counted in the width).
\<close>

definition digit_char :: "nat \<Rightarrow> char" where
  "digit_char d = ''0123456789'' ! d"

fun digits :: "nat \<Rightarrow> string" where
  "digits n = (if n < 10 then [digit_char n] else digits (n div 10) @ [digit_char (n mod 10)])"

declare digits.simps [simp del]

definition printf_d :: "int \<Rightarrow> string" where
  "printf_d i = (if i < 0 then CHR ''-'' # digits (nat (- i)) else digits (nat i))"

definition printf_03d :: "int \<Rightarrow> string" where
  "printf_03d i =
     (let sign = (if i < 0 then [CHR ''-''] else []);
          body = digits (nat \<bar>i\<bar>)
      in sign @ replicate (3 - length sign - length body) CHR ''0'' @ body)"

section \<open>The host and the operating system\<close>

text \<open>
  The module's two settings (the variables \<^verbatim>\<open>log_level\<close> and \<^verbatim>\<open>log_directory\<close>). The
  directory is never \<^verbatim>\<open>NULL\<close> once the setting is registered; its boot value is the
  empty string.
\<close>

record guc =
  log_level :: int
  log_directory :: string

text \<open>
  What the module reads from its surroundings while it handles one event: the host's
  globals \<^verbatim>\<open>MyProcPid\<close> and \<^verbatim>\<open>debug_query_string\<close>, the clock (the result
  \<^verbatim>\<open>(tv_sec, tv_usec)\<close> of the \<open>k\<close>-th call of \<^verbatim>\<open>gettimeofday\<close>), the host's
  \<^verbatim>\<open>pg_strftime\<close> of a time in \<^verbatim>\<open>log_timezone\<close> with the format
  \<^verbatim>\<open>"%Y-%m-%d %H:%M:%S     %Z"\<close>, the host's \<^verbatim>\<open>unpack_sql_state\<close>, and the answers of
  the operating system to \<^verbatim>\<open>open\<close> and \<^verbatim>\<open>write\<close>: the value returned, and the value the
  call stores in \<^verbatim>\<open>errno\<close> if it stores one.
\<close>

record env =
  MyProcPid :: int
  debug_query_string :: "string option"
  gettimeofday :: "nat \<Rightarrow> int \<times> int"
  pg_strftime :: "int \<Rightarrow> string"
  unpack_sql_state :: "int \<Rightarrow> string"
  os_open :: "string \<Rightarrow> int \<times> int option"
  os_write :: "int \<Rightarrow> string \<Rightarrow> int \<Rightarrow> int \<times> int option"

text \<open>
  What the module changes outside itself: \<^verbatim>\<open>errno\<close>, the number of clock readings made
  so far, and the system calls issued, in order.
\<close>

datatype syscall = Sys_open string | Sys_write int string int

record host =
  errno :: int
  ticks :: nat
  trace :: "syscall list"

definition set_errno :: "int option \<Rightarrow> host \<Rightarrow> host" where
  "set_errno e h = (case e of None \<Rightarrow> h | Some v \<Rightarrow> h\<lparr>errno := v\<rparr>)"

text \<open>
  \<^verbatim>\<open>ereport(ERROR, ...)\<close> does not return to its caller: the host unwinds the stack to
  its error handler. \<^verbatim>\<open>write_file\<close> relies on it (after a failed \<^verbatim>\<open>open\<close> it goes on to
  \<^verbatim>\<open>write\<close> with no \<^verbatim>\<open>else\<close>). A function that may raise therefore ends in one of two ways,
  each with the state it leaves behind. The report keeps the severity, the \<^verbatim>\<open>errno\<close> that
  \<^verbatim>\<open>errcode_for_file_access()\<close> and \<^verbatim>\<open>%m\<close> read, and the message with the path filled in.
\<close>

record ErrorReport =
  rep_elevel :: int
  rep_errno :: int
  rep_message :: string

datatype 'a outcome = Returned 'a | Raised ErrorReport 'a

fun state_of :: "'a outcome \<Rightarrow> 'a" where
  "state_of (Returned s) = s"
| "state_of (Raised r s) = s"

fun has_raised :: "'a outcome \<Rightarrow> bool" where
  "has_raised (Returned s) = False"
| "has_raised (Raised r s) = True"

text \<open>
  Modelled from the spec: the descriptor of the console stream (\<^verbatim>\<open>fileno(stderr)\<close>), the
  out-of-space error code and the host's path length budget come from system and host
  headers that are not among this module's sources; the values are the usual ones
  (\<^verbatim>\<open>unistd.h\<close>, \<^verbatim>\<open>errno.h\<close> on Linux, \<^verbatim>\<open>pg_config_manual.h\<close>). No theorem below depends
  on them beyond \<open>ENOSPC\<close> being a fixed code.
\<close>

definition STDERR_FILENO :: int where "STDERR_FILENO = 2"
definition ENOSPC :: int where "ENOSPC = 28"
definition MAXPGPATH :: nat where "MAXPGPATH = 1024"

abbreviation dquote :: char where "dquote \<equiv> CHR 0x22"

subsection \<open>\<^verbatim>\<open>write_console\<close> and \<^verbatim>\<open>write_file\<close>\<close>

definition write_console :: "env \<Rightarrow> string \<Rightarrow> int \<Rightarrow> host \<Rightarrow> host" where
  "write_console env line len h =
     (let (rc, e) = os_write env STDERR_FILENO line len;
          h = set_errno e (h\<lparr>trace := trace h @ [Sys_write STDERR_FILENO line len]\<rparr>)
      in h)"

text \<open>
  \<^verbatim>\<open>snprintf\<close> into \<^verbatim>\<open>fullpath[MAXPGPATH * 2]\<close> keeps at most \<^verbatim>\<open>MAXPGPATH * 2 - 1\<close>
  characters.
\<close>

definition write_file ::
  "guc \<Rightarrow> env \<Rightarrow> string \<Rightarrow> int \<Rightarrow> int \<Rightarrow> host \<Rightarrow> host outcome" where
  "write_file g env line len elevel h =
     (let fullpath = take (MAXPGPATH * 2 - 1)
                       (log_directory g @ ''/'' @ intercept_log_severity elevel @ ''.log'');
          (fd, e) = os_open env fullpath;
          h = set_errno e (h\<lparr>trace := trace h @ [Sys_open fullpath]\<rparr>)
      in if fd < 0 then
           Raised \<lparr>rep_elevel = ERROR, rep_errno = errno h,
                   rep_message = ''could not open intercept log file '' @
                                 [dquote] @ fullpath @ [dquote] @ '': %m''\<rparr> h
         else
           (let (n, e) = os_write env fd line len;
                h = set_errno e (h\<lparr>trace := trace h @ [Sys_write fd line len]\<rparr>)
            in if n \<noteq> len then
                 (let h = (if errno h = 0 then h\<lparr>errno := ENOSPC\<rparr> else h)
                  in Raised \<lparr>rep_elevel = ERROR, rep_errno = errno h,
                             rep_message = ''could not write intercept log file '' @
                                           [dquote] @ fullpath @ [dquote] @ '': %m''\<rparr> h)
               else Returned h))"

section \<open>Formatting one event\<close>

text \<open>The fields of the host's \<^verbatim>\<open>ErrorData\<close> that the module reads.\<close>

record ErrorData =
  elevel :: int
  sqlerrcode :: int
  message :: "string option"
  detail :: "string option"
  detail_log :: "string option"
  hint :: "string option"
  context_text :: "string option"
  backtrace :: "string option"
  hide_ctx :: bool
  filename :: "string option"
  lineno :: int
  funcname :: "string option"
  cursorpos :: int
  internalpos :: int
  internalquery :: "string option"

text \<open>C's integer division truncates towards zero.\<close>

definition c_div :: "int \<Rightarrow> int \<Rightarrow> int" where
  "c_div a b = sgn a * sgn b * (\<bar>a\<bar> div \<bar>b\<bar>)"

text \<open>
  \<^verbatim>\<open>get_formatted_intercept_log_time\<close>: the caller's buffer is zeroed, so pasting the four
  characters of \<^verbatim>\<open>msbuf\<close> at offset 19 shows only when the formatted time reaches
  that far, and the text ends after the paste when the formatted time is shorter than 23.
\<close>

definition get_formatted_intercept_log_time :: "env \<Rightarrow> host \<Rightarrow> string \<times> host" where
  "get_formatted_intercept_log_time env h =
     (let (tv_sec, tv_usec) = gettimeofday env (ticks h);
          h = h\<lparr>ticks := Suc (ticks h)\<rparr>;
          stamp_time = tv_sec;
          formatted_log_time = pg_strftime env stamp_time;
          msbuf = ''.'' @ printf_03d (c_div tv_usec 1000);
          formatted_log_time =
            (if length formatted_log_time < 19 then formatted_log_time
             else take 19 formatted_log_time @ take 4 msbuf @ drop 23 formatted_log_time)
      in (formatted_log_time, h))"

definition add_prefix :: "env \<Rightarrow> string \<Rightarrow> ErrorData \<Rightarrow> host \<Rightarrow> string \<times> host" where
  "add_prefix env buf edata h =
     (let (formatted_log_time, h) = get_formatted_intercept_log_time env h;
          buf = buf @ formatted_log_time;
          buf = buf @ '' ['' @ printf_d (MyProcPid env) @ ''] ''
      in (buf, h))"

text \<open>
  The source writes the same four statements for each labelled text field
  (\<^verbatim>\<open>add_prefix\<close>, the label, \<^verbatim>\<open>append_with_tabs\<close>, the newline); they are written once
  here.
\<close>

definition append_field ::
  "env \<Rightarrow> ErrorData \<Rightarrow> string \<Rightarrow> string \<Rightarrow> string \<times> host \<Rightarrow> string \<times> host" where
  "append_field env edata label str bh =
     (let (buf, h) = bh;
          (buf, h) = add_prefix env buf edata h;
          buf = buf @ label;
          buf = append_with_tabs buf str;
          buf = buf @ [nl]
      in (buf, h))"

text \<open>
  \<^verbatim>\<open>prepare_and_emit_intercept_log_message\<close> builds the buffer block by block and then
  routes it. Each block of the source is a definition here, in the source's order: the
  primary message line (from \<^verbatim>\<open>add_prefix\<close> to the first newline), then the \<^verbatim>\<open>if\<close>
  statements for the detail, the hint, the internal query, the context, the location, the
  backtrace and the active statement.
\<close>

definition append_message :: "env \<Rightarrow> ErrorData \<Rightarrow> string \<times> host \<Rightarrow> string \<times> host" where
  "append_message env edata bh =
     (let (buf, h) = add_prefix env (fst bh) edata (snd bh);
          buf = buf @ intercept_log_severity (elevel edata) @ '':  '';
          buf = (if sqlerrcode edata \<noteq> 0
                 then buf @ unpack_sql_state env (sqlerrcode edata) @ '':  '' else buf);
          buf = (case message edata of
                   Some m \<Rightarrow> append_with_tabs buf m
                 | None \<Rightarrow> append_with_tabs buf ''missing error text'');
          buf = (if cursorpos edata > 0
                 then buf @ '' at character '' @ printf_d (cursorpos edata)
                 else if internalpos edata > 0
                 then buf @ '' at character '' @ printf_d (internalpos edata)
                 else buf);
          buf = buf @ [nl]
      in (buf, h))"

definition append_detail :: "env \<Rightarrow> ErrorData \<Rightarrow> string \<times> host \<Rightarrow> string \<times> host" where
  "append_detail env edata bh =
     (case detail_log edata of
        Some dl \<Rightarrow> append_field env edata ''DETAIL:  '' dl bh
      | None \<Rightarrow>
          (case detail edata of
             Some d \<Rightarrow> append_field env edata ''DETAIL:  '' d bh
           | None \<Rightarrow> bh))"

definition append_hint :: "env \<Rightarrow> ErrorData \<Rightarrow> string \<times> host \<Rightarrow> string \<times> host" where
  "append_hint env edata bh =
     (case hint edata of
        Some t \<Rightarrow> append_field env edata ''HINT:  '' t bh
      | None \<Rightarrow> bh)"

definition append_query :: "env \<Rightarrow> ErrorData \<Rightarrow> string \<times> host \<Rightarrow> string \<times> host" where
  "append_query env edata bh =
     (case internalquery edata of
        Some q \<Rightarrow> append_field env edata ''QUERY:  '' q bh
      | None \<Rightarrow> bh)"

definition append_context :: "env \<Rightarrow> ErrorData \<Rightarrow> string \<times> host \<Rightarrow> string \<times> host" where
  "append_context env edata bh =
     (case context_text edata of
        Some c \<Rightarrow>
          if \<not> hide_ctx edata then append_field env edata ''CONTEXT:  '' c bh else bh
      | None \<Rightarrow> bh)"

definition append_location :: "env \<Rightarrow> ErrorData \<Rightarrow> string \<times> host \<Rightarrow> string \<times> host" where
  "append_location env edata bh =
     (if funcname edata \<noteq> None \<and> filename edata \<noteq> None then
        (let (buf, h) = add_prefix env (fst bh) edata (snd bh)
         in (buf @ ''LOCATION:  '' @ the (funcname edata) @ '', '' @
             the (filename edata) @ '':'' @ printf_d (lineno edata) @ [nl], h))
      else if filename edata \<noteq> None then
        (let (buf, h) = add_prefix env (fst bh) edata (snd bh)
         in (buf @ ''LOCATION:  '' @ the (filename edata) @ '':'' @
             printf_d (lineno edata) @ [nl], h))
      else bh)"

definition append_backtrace :: "env \<Rightarrow> ErrorData \<Rightarrow> string \<times> host \<Rightarrow> string \<times> host" where
  "append_backtrace env edata bh =
     (case backtrace edata of
        Some b \<Rightarrow> append_field env edata ''BACKTRACE:  '' b bh
      | None \<Rightarrow> bh)"

definition append_statement :: "env \<Rightarrow> ErrorData \<Rightarrow> string \<times> host \<Rightarrow> string \<times> host" where
  "append_statement env edata bh =
     (case debug_query_string env of
        Some s \<Rightarrow> append_field env edata ''STATEMENT:  '' s bh
      | None \<Rightarrow> bh)"

definition prepare_message :: "env \<Rightarrow> ErrorData \<Rightarrow> host \<Rightarrow> string \<times> host" where
  "prepare_message env edata h =
     (let bh = ([], h);
          bh = append_message env edata bh;
          bh = append_detail env edata bh;
          bh = append_hint env edata bh;
          bh = append_query env edata bh;
          bh = append_context env edata bh;
          bh = append_location env edata bh;
          bh = append_backtrace env edata bh;
          bh = append_statement env edata bh
      in bh)"

text \<open>
  The routing: the choice between the console and the file. The length handed to the
  write is \<^verbatim>\<open>buf.len\<close>.
\<close>

definition prepare_and_emit_intercept_log_message ::
  "guc \<Rightarrow> env \<Rightarrow> ErrorData \<Rightarrow> host \<Rightarrow> host outcome" where
  "prepare_and_emit_intercept_log_message g env edata h =
     (let (buf, h) = prepare_message env edata h
      in if log_directory g = []
         then Returned (write_console env buf (int (length buf)) h)
         else write_file g env buf (int (length buf)) (elevel edata) h)"

section \<open>The hook\<close>

text \<open>
  The module's own state is the function-local static \<^verbatim>\<open>in_intercept_log_hook\<close>; no
  other code can reach it. The hook installed before this one (\<^verbatim>\<open>original_emit_log_hook\<close>,
  possibly \<^verbatim>\<open>NULL\<close>) acts on the host's state only, and may itself raise.
\<close>

record world =
  in_intercept_log_hook :: bool
  hst :: host

type_synonym emit_log_hook_type = "ErrorData \<Rightarrow> host \<Rightarrow> host outcome"

definition intercept_log ::
  "emit_log_hook_type option \<Rightarrow> guc \<Rightarrow> env \<Rightarrow> ErrorData \<Rightarrow> world \<Rightarrow> world outcome" where
  "intercept_log original_emit_log_hook g env edata w =
     (case (case original_emit_log_hook of
              Some hook \<Rightarrow> hook edata (hst w)
            | None \<Rightarrow> Returned (hst w)) of
        Raised r h \<Rightarrow> Raised r (w\<lparr>hst := h\<rparr>)
      | Returned h \<Rightarrow>
          (let w = w\<lparr>hst := h\<rparr>
           in if in_intercept_log_hook w then Returned w
              else if log_level g = LOG_LEVEL_NONE \<or> elevel edata \<noteq> log_level g
              then Returned w
              else
                (let w = w\<lparr>in_intercept_log_hook := True\<rparr>
                 in case prepare_and_emit_intercept_log_message g env edata (hst w) of
                      Raised r h \<Rightarrow> Raised r (w\<lparr>hst := h\<rparr>)
                    | Returned h \<Rightarrow>
                        Returned (w\<lparr>hst := h, in_intercept_log_hook := False\<rparr>))))"

subsection \<open>The setting's values\<close>

text \<open>
  \<^verbatim>\<open>log_level_options\<close>: name, value and the hidden flag of each entry, without the
  terminating \<^verbatim>\<open>{NULL, 0, false}\<close>.
\<close>

definition log_level_options :: "(string \<times> int \<times> bool) list" where
  "log_level_options =
     [(''debug5'', DEBUG5, False),
      (''debug4'', DEBUG4, False),
      (''debug3'', DEBUG3, False),
      (''debug2'', DEBUG2, False),
      (''debug1'', DEBUG1, False),
      (''debug'', DEBUG2, True),
      (''info'', INFO, False),
      (''notice'', NOTICE, False),
      (''warning'', WARNING, False),
      (''error'', ERROR, False),
      (''log'', LOG, False),
      (''fatal'', FATAL, False),
      (''panic'', PANIC, False),
      (''none'', LOG_LEVEL_NONE, False)]"

section \<open>The formatted block as the spec describes it\<close>

text \<open>
  The spec's data model describes the formatted block as an ordered sequence of field
  sections, each present or absent, each laid out on a line of its own behind a freshly
  computed prefix. The definitions of this section follow that description; the theorems
  below compare them with the buffer that \<^const>\<open>prepare_message\<close> builds.
\<close>

definition log_time_text :: "env \<Rightarrow> nat \<Rightarrow> string" where
  "log_time_text env k =
     fst (get_formatted_intercept_log_time env \<lparr>errno = 0, ticks = k, trace = []\<rparr>)"

definition log_prefix :: "env \<Rightarrow> nat \<Rightarrow> string" where
  "log_prefix env k = log_time_text env k @ '' ['' @ printf_d (MyProcPid env) @ ''] ''"

text \<open>Laying out the sections from the \<open>k\<close>-th clock reading on.\<close>

fun render :: "env \<Rightarrow> nat \<Rightarrow> string option list \<Rightarrow> string" where
  "render env k [] = []"
| "render env k (None # ss) = render env k ss"
| "render env k (Some body # ss) = log_prefix env k @ body @ [nl] @ render env (Suc k) ss"

definition put_section :: "env \<Rightarrow> string option \<Rightarrow> string \<times> host \<Rightarrow> string \<times> host" where
  "put_section env sec bh =
     (case sec of
        None \<Rightarrow> bh
      | Some body \<Rightarrow>
          (fst bh @ log_prefix env (ticks (snd bh)) @ body @ [nl],
           (snd bh)\<lparr>ticks := Suc (ticks (snd bh))\<rparr>))"

definition labelled :: "string \<Rightarrow> string option \<Rightarrow> string option" where
  "labelled label txt = map_option (\<lambda>t. label @ tab_escape t) txt"

definition has_label :: "string \<Rightarrow> string option \<Rightarrow> bool" where
  "has_label label sec = (case sec of None \<Rightarrow> False | Some body \<Rightarrow> prefix label body)"

definition primary_text :: "env \<Rightarrow> ErrorData \<Rightarrow> string" where
  "primary_text env e =
     intercept_log_severity (elevel e) @ '':  '' @
     (if sqlerrcode e \<noteq> 0 then unpack_sql_state env (sqlerrcode e) @ '':  '' else []) @
     tab_escape (case message e of Some m \<Rightarrow> m | None \<Rightarrow> ''missing error text'')"

definition position_suffix :: "ErrorData \<Rightarrow> string" where
  "position_suffix e =
     (if 0 < cursorpos e then '' at character '' @ printf_d (cursorpos e)
      else if 0 < internalpos e then '' at character '' @ printf_d (internalpos e)
      else [])"

definition detail_section :: "ErrorData \<Rightarrow> string option" where
  "detail_section e =
     labelled ''DETAIL:  '' (case detail_log e of Some dl \<Rightarrow> Some dl | None \<Rightarrow> detail e)"

definition context_section :: "ErrorData \<Rightarrow> string option" where
  "context_section e =
     labelled ''CONTEXT:  '' (if hide_ctx e then None else context_text e)"

text \<open>
  The location section as the source emits it: with the function name only when the file
  name is present too, and not at all without a file name.
\<close>

definition location_section :: "ErrorData \<Rightarrow> string option" where
  "location_section e =
     (case filename e of
        None \<Rightarrow> None
      | Some file \<Rightarrow>
          (case funcname e of
             Some func \<Rightarrow>
               Some (''LOCATION:  '' @ func @ '', '' @ file @ '':'' @ printf_d (lineno e))
           | None \<Rightarrow> Some (''LOCATION:  '' @ file @ '':'' @ printf_d (lineno e))))"

definition block_sections :: "env \<Rightarrow> ErrorData \<Rightarrow> string option list" where
  "block_sections env e =
     [Some (primary_text env e @ position_suffix e),
      detail_section e,
      labelled ''HINT:  '' (hint e),
      labelled ''QUERY:  '' (internalquery e),
      context_section e,
      location_section e,
      labelled ''BACKTRACE:  '' (backtrace e),
      labelled ''STATEMENT:  '' (debug_query_string env)]"

text \<open>
  The filter as the spec words it (\<open>shouldProcess\<close>): an event is processed unless the
  reentrancy flag is set, the watched severity is the disabled sentinel, or the event's
  severity differs from the watched one.
\<close>

definition shouldProcess :: "ErrorData \<Rightarrow> guc \<Rightarrow> bool \<Rightarrow> bool" where
  "shouldProcess event config reentrancyFlag =
     (\<not> (reentrancyFlag \<or> log_level config = LOG_LEVEL_NONE \<or>
         elevel event \<noteq> log_level config))"

text \<open>The system calls that route a block: one console write, or an open and a write.\<close>

definition routed_calls :: "guc \<Rightarrow> env \<Rightarrow> ErrorData \<Rightarrow> string \<Rightarrow> syscall list" where
  "routed_calls g env e block =
     (if log_directory g = [] then [Sys_write STDERR_FILENO block (int (length block))]
      else
        (let path = take (MAXPGPATH * 2 - 1)
                      (log_directory g @ ''/'' @ intercept_log_severity (elevel e) @ ''.log'');
             fd = fst (os_open env path)
         in if fd < 0 then [Sys_open path]
            else [Sys_open path, Sys_write fd block (int (length block))]))"

section \<open>Sample inputs\<close>

text \<open>
  A process with id 4242 and no statement in flight, a clock that stands still, and an
  operating system on which \<^verbatim>\<open>open\<close> returns descriptor 3 and \<^verbatim>\<open>write\<close> writes everything;
  the same with a directory that cannot be opened (\<^verbatim>\<open>open\<close> returns -1 and sets \<^verbatim>\<open>errno\<close>
  to 2), and with a disk that takes only 10 bytes and leaves \<^verbatim>\<open>errno\<close> alone.
\<close>

definition sample_env :: env where
  "sample_env =
     \<lparr>MyProcPid = 4242, debug_query_string = None,
      gettimeofday = (\<lambda>k. (1650000000, 123456)),
      pg_strftime = (\<lambda>t. ''2022-04-15 05:20:00     UTC''),
      unpack_sql_state = (\<lambda>c. ''XX000''),
      os_open = (\<lambda>p. (3, None)),
      os_write = (\<lambda>fd line len. (len, None))\<rparr>"

definition failing_open_env :: env where
  "failing_open_env = sample_env\<lparr>os_open := (\<lambda>p. (- 1, Some 2))\<rparr>"

definition short_write_env :: env where
  "short_write_env = sample_env\<lparr>os_write := (\<lambda>fd line len. (10, None))\<rparr>"

text \<open>An \<open>ERROR\<close> event with the message \<open>disk full\<close> and no other field.\<close>

definition sample_edata :: ErrorData where
  "sample_edata =
     \<lparr>elevel = ERROR, sqlerrcode = 0, message = Some ''disk full'', detail = None,
      detail_log = None, hint = None, context_text = None, backtrace = None,
      hide_ctx = False, filename = None, lineno = 0, funcname = None, cursorpos = 0,
      internalpos = 0, internalquery = None\<rparr>"

definition sample_host :: host where
  "sample_host = \<lparr>errno = 0, ticks = 0, trace = []\<rparr>"

definition sample_world :: world where
  "sample_world = \<lparr>in_intercept_log_hook = False, hst = sample_host\<rparr>"

definition console_guc :: guc where
  "console_guc = \<lparr>log_level = ERROR, log_directory = []\<rparr>"

definition file_guc :: guc where
  "file_guc = \<lparr>log_level = ERROR, log_directory = ''/var/tmp/intercepted''\<rparr>"

section \<open>Properties of the severity comparison\<close>

lemmas elevel_defs =
  DEBUG5_def DEBUG4_def DEBUG3_def DEBUG2_def DEBUG1_def LOG_def LOG_SERVER_ONLY_def
  INFO_def NOTICE_def WARNING_def WARNING_CLIENT_ONLY_def ERROR_def FATAL_def PANIC_def
  LOG_LEVEL_NONE_def

text \<open>
  C1, as stated: with the minimum at \<open>LOG\<close>, a severity is output iff it is at least
  \<open>FATAL\<close>. This fails for the event severity \<open>LOG\<close> itself, which the first branch
  lets through although it ranks below \<open>FATAL\<close>.
\<close>

theorem is_log_level_output_min_LOG_counterexample:
  "is_log_level_output LOG LOG \<and> \<not> LOG \<ge> FATAL"
  by (simp add: is_log_level_output_def elevel_defs)

text \<open>
  C1, amended: with the minimum at \<open>LOG\<close>, a severity is output iff it is one of the two
  log-class severities or it is at least \<open>FATAL\<close>. In particular, for every severity other
  than \<open>LOG\<close> and \<open>LOG_SERVER_ONLY\<close> the test is exactly \<open>S \<ge> FATAL\<close>.
\<close>

theorem is_log_level_output_min_LOG:
  "is_log_level_output S LOG \<longleftrightarrow> (S = LOG \<or> S = LOG_SERVER_ONLY \<or> S \<ge> FATAL)"
  by (simp add: is_log_level_output_def elevel_defs)

text \<open>
  C5: a log-class event severity (\<open>LOG\<close> or \<open>LOG_SERVER_ONLY\<close>) is output iff the minimum
  is \<open>LOG\<close> or at most \<open>ERROR\<close>, and \<open>WARNING_CLIENT_ONLY\<close> is output for no minimum.
\<close>

theorem is_log_level_output_log_class:
  "(is_log_level_output LOG M \<longleftrightarrow> (M = LOG \<or> M \<le> ERROR)) \<and>
   (is_log_level_output LOG_SERVER_ONLY M \<longleftrightarrow> (M = LOG \<or> M \<le> ERROR)) \<and>
   \<not> is_log_level_output WARNING_CLIENT_ONLY M"
  by (simp add: is_log_level_output_def elevel_defs)

section \<open>Properties of the escaping\<close>

lemma append_with_tabs_eq: "append_with_tabs buf str = buf @ tab_escape str"
  by (induction str arbitrary: buf) (simp_all add: tab_escape_def)

lemma tab_escape_Cons:
  "tab_escape (c # cs) = (if c = nl then nl # tab # tab_escape cs else c # tab_escape cs)"
  by (simp add: tab_escape_def)

lemma tab_unescape_other: "c \<noteq> nl \<Longrightarrow> tab_unescape (c # xs) = c # tab_unescape xs"
  by (cases xs) simp_all

lemma tab_unescape_escape: "tab_unescape (tab_escape str) = str"
  by (induction str) (simp_all add: tab_escape_Cons tab_unescape_other, simp add: tab_escape_def)

lemma tab_after_newline:
  "i < length (tab_escape str) \<Longrightarrow> tab_escape str ! i = nl \<Longrightarrow>
   Suc i < length (tab_escape str) \<and> tab_escape str ! Suc i = tab"
proof (induction str arbitrary: i)
  case Nil
  then show ?case by (simp add: tab_escape_def)
next
  case (Cons c cs)
  show ?case
  proof (cases "c = nl")
    case True
    then have e: "tab_escape (c # cs) = nl # tab # tab_escape cs"
      by (simp add: tab_escape_Cons)
    show ?thesis
    proof (cases i)
      case 0
      then show ?thesis using e by simp
    next
      case (Suc j)
      show ?thesis
      proof (cases j)
        case 0
        then show ?thesis using Cons.prems e Suc by simp
      next
        case (Suc k)
        then show ?thesis using Cons.prems Cons.IH[of k] e \<open>i = Suc j\<close> by simp
      qed
    qed
  next
    case False
    then have e: "tab_escape (c # cs) = c # tab_escape cs"
      by (simp add: tab_escape_Cons)
    show ?thesis
    proof (cases i)
      case 0
      then show ?thesis using Cons.prems e False by simp
    next
      case (Suc j)
      then show ?thesis using Cons.prems Cons.IH[of j] e by simp
    qed
  qed
qed

text \<open>
  C8: \<^const>\<open>append_with_tabs\<close> appends the text with a tab inserted after each newline
  and nothing else added, removed or changed: the appended text is the input with every
  newline replaced by newline and tab and every other character kept, dropping the tab
  after each newline gives the input back, and in the escaped text every newline is
  immediately followed by a tab.
\<close>

theorem append_with_tabs_inserts_tabs:
  "append_with_tabs buf str =
     buf @ concat (map (\<lambda>c. if c = nl then [nl, tab] else [c]) str) \<and>
   tab_unescape (append_with_tabs [] str) = str \<and>
   (\<forall>i. i < length (append_with_tabs [] str) \<and> append_with_tabs [] str ! i = nl \<longrightarrow>
        Suc i < length (append_with_tabs [] str) \<and> append_with_tabs [] str ! Suc i = tab)"
  using tab_after_newline[of _ str]
  by (simp add: append_with_tabs_eq tab_unescape_escape) (simp add: tab_escape_def)

text \<open>
  The same on the buffer \<open>x\<close> and the text \<open>a\<close>, newline, \<open>b\<close>: the newline at
  index 1 of the escaped text is followed by a tab.
\<close>

theorem append_with_tabs_inserts_tabs_witness:
  "append_with_tabs ''x'' [CHR ''a'', nl, CHR ''b''] = ''x'' @ [CHR ''a'', nl, tab, CHR ''b''] \<and>
   tab_unescape (append_with_tabs [] [CHR ''a'', nl, CHR ''b'']) = [CHR ''a'', nl, CHR ''b''] \<and>
   append_with_tabs [] [CHR ''a'', nl, CHR ''b''] ! 1 = nl \<and>
   append_with_tabs [] [CHR ''a'', nl, CHR ''b''] ! Suc 1 = tab"
  using append_with_tabs_inserts_tabs[of "''x''" "[CHR ''a'', nl, CHR ''b'']"]
  by simp

section \<open>Properties of the file writer\<close>

text \<open>
  C6: when \<^verbatim>\<open>open\<close> fails, \<^const>\<open>write_file\<close> raises an \<open>ERROR\<close> report that carries the
  \<^verbatim>\<open>errno\<close> left by the call, and issues no write; when \<^verbatim>\<open>write\<close> returns a count
  other than the requested length, it raises an \<open>ERROR\<close> report that carries the
  \<^verbatim>\<open>errno\<close> left by the call, or \<open>ENOSPC\<close> when that is zero; otherwise it returns.
\<close>

theorem write_file_reports_failure:
  assumes "fullpath = take (MAXPGPATH * 2 - 1)
                        (log_directory g @ ''/'' @ intercept_log_severity lev @ ''.log'')"
    and "opened = os_open env fullpath"
    and "h1 = set_errno (snd opened) (h\<lparr>trace := trace h @ [Sys_open fullpath]\<rparr>)"
    and "written = os_write env (fst opened) line len"
    and "h2 = set_errno (snd written) (h1\<lparr>trace := trace h1 @ [Sys_write (fst opened) line len]\<rparr>)"
  shows "(fst opened < 0 \<longrightarrow>
            write_file g env line len lev h =
              Raised \<lparr>rep_elevel = ERROR, rep_errno = errno h1,
                      rep_message = ''could not open intercept log file '' @
                                    [dquote] @ fullpath @ [dquote] @ '': %m''\<rparr> h1) \<and>
         (0 \<le> fst opened \<and> fst written \<noteq> len \<longrightarrow>
            write_file g env line len lev h =
              Raised \<lparr>rep_elevel = ERROR,
                      rep_errno = (if errno h2 = 0 then ENOSPC else errno h2),
                      rep_message = ''could not write intercept log file '' @
                                    [dquote] @ fullpath @ [dquote] @ '': %m''\<rparr>
                     (h2\<lparr>errno := (if errno h2 = 0 then ENOSPC else errno h2)\<rparr>)) \<and>
         (0 \<le> fst opened \<and> fst written = len \<longrightarrow>
            write_file g env line len lev h = Returned h2)"
  using assms by (simp add: write_file_def Let_def split_def)

lemma ENOSPC_sample: "ENOSPC = 28" by (simp add: ENOSPC_def)

lemma sample_path:
  "take (MAXPGPATH * 2 - 1) (log_directory file_guc @ ''/'' @ intercept_log_severity ERROR @ ''.log'')
     = ''/var/tmp/intercepted/ERROR.log''"
  by (simp add: file_guc_def intercept_log_severity_def elevel_defs MAXPGPATH_def)

text \<open>
  Both failures on the sample inputs: a directory that cannot be opened, and a disk that
  takes 10 of 12 bytes without setting \<^verbatim>\<open>errno\<close>.
\<close>

theorem write_file_reports_failure_witness:
  "fst (os_open failing_open_env ''/var/tmp/intercepted/ERROR.log'') < 0 \<and>
   write_file file_guc failing_open_env ''twelve bytes'' 12 ERROR sample_host =
     Raised \<lparr>rep_elevel = ERROR, rep_errno = 2,
             rep_message = ''could not open intercept log file '' @ [dquote] @
                           ''/var/tmp/intercepted/ERROR.log'' @ [dquote] @ '': %m''\<rparr>
            \<lparr>errno = 2, ticks = 0, trace = [Sys_open ''/var/tmp/intercepted/ERROR.log'']\<rparr> \<and>
   0 \<le> fst (os_open short_write_env ''/var/tmp/intercepted/ERROR.log'') \<and>
   fst (os_write short_write_env 3 ''twelve bytes'' 12) \<noteq> 12 \<and>
   write_file file_guc short_write_env ''twelve bytes'' 12 ERROR sample_host =
     Raised \<lparr>rep_elevel = ERROR, rep_errno = ENOSPC,
             rep_message = ''could not write intercept log file '' @ [dquote] @
                           ''/var/tmp/intercepted/ERROR.log'' @ [dquote] @ '': %m''\<rparr>
            \<lparr>errno = ENOSPC, ticks = 0,
               trace = [Sys_open ''/var/tmp/intercepted/ERROR.log'',
                        Sys_write 3 ''twelve bytes'' 12]\<rparr>"
proof -
  have o1: "os_open failing_open_env ''/var/tmp/intercepted/ERROR.log'' = (- 1, Some 2)"
    by (simp add: failing_open_env_def sample_env_def)
  have o2: "os_open short_write_env ''/var/tmp/intercepted/ERROR.log'' = (3, None)"
    by (simp add: short_write_env_def sample_env_def)
  have w2: "os_write short_write_env 3 ''twelve bytes'' 12 = (10, None)"
    by (simp add: short_write_env_def sample_env_def)
  note a = write_file_reports_failure[where g = file_guc and lev = ERROR
      and env = failing_open_env and h = sample_host and line = "''twelve bytes''" and len = 12,
      OF refl refl refl refl refl, unfolded sample_path]
  note b = write_file_reports_failure[where g = file_guc and lev = ERROR
      and env = short_write_env and h = sample_host and line = "''twelve bytes''" and len = 12,
      OF refl refl refl refl refl, unfolded sample_path]
  show ?thesis
    using a b
    by (simp add: sample_path o1 o2 w2 set_errno_def sample_host_def ENOSPC_sample)
qed

section \<open>Properties of the formatted block\<close>

subsection \<open>The buffer is the layout of the sections\<close>

lemma get_time_eq:
  "get_formatted_intercept_log_time env h = (log_time_text env (ticks h), h\<lparr>ticks := Suc (ticks h)\<rparr>)"
  by (simp add: get_formatted_intercept_log_time_def log_time_text_def Let_def split_def)

lemma add_prefix_eq:
  "add_prefix env buf e h = (buf @ log_prefix env (ticks h), h\<lparr>ticks := Suc (ticks h)\<rparr>)"
  by (simp add: add_prefix_def get_time_eq log_prefix_def)

lemma append_field_eq:
  "append_field env e label str bh = put_section env (Some (label @ tab_escape str)) bh"
  by (simp add: append_field_def add_prefix_eq append_with_tabs_eq put_section_def split_def)

lemma put_section_None: "put_section env None bh = bh"
  by (simp add: put_section_def)

lemma append_message_eq:
  "append_message env e bh = put_section env (Some (primary_text env e @ position_suffix e)) bh"
  by (simp add: append_message_def add_prefix_eq append_with_tabs_eq put_section_def
      primary_text_def position_suffix_def split: option.split)

lemma append_detail_eq: "append_detail env e bh = put_section env (detail_section e) bh"
  by (simp add: append_detail_def detail_section_def labelled_def append_field_eq
      put_section_None split: option.split)

lemma append_hint_eq: "append_hint env e bh = put_section env (labelled ''HINT:  '' (hint e)) bh"
  by (simp add: append_hint_def labelled_def append_field_eq put_section_None split: option.split)

lemma append_query_eq:
  "append_query env e bh = put_section env (labelled ''QUERY:  '' (internalquery e)) bh"
  by (simp add: append_query_def labelled_def append_field_eq put_section_None split: option.split)

lemma append_context_eq: "append_context env e bh = put_section env (context_section e) bh"
  by (simp add: append_context_def context_section_def labelled_def append_field_eq
      put_section_None split: option.split)

lemma append_location_eq: "append_location env e bh = put_section env (location_section e) bh"
  by (auto simp add: append_location_def location_section_def add_prefix_eq put_section_def
      split: option.split)

lemma append_backtrace_eq:
  "append_backtrace env e bh = put_section env (labelled ''BACKTRACE:  '' (backtrace e)) bh"
  by (simp add: append_backtrace_def labelled_def append_field_eq put_section_None
      split: option.split)

lemma append_statement_eq:
  "append_statement env e bh =
     put_section env (labelled ''STATEMENT:  '' (debug_query_string env)) bh"
  by (simp add: append_statement_def labelled_def append_field_eq put_section_None
      split: option.split)

lemma put_sections_render:
  "foldl (\<lambda>bh s. put_section env s bh) (buf, h) ss =
     (buf @ render env (ticks h) ss,
      h\<lparr>ticks := ticks h + length (filter (\<lambda>s. s \<noteq> None) ss)\<rparr>)"
proof (induction ss arbitrary: buf h)
  case Nil
  then show ?case by simp
next
  case (Cons s ss)
  show ?case
  proof (cases s)
    case None
    then show ?thesis using Cons.IH[of buf h] by (simp add: put_section_None)
  next
    case (Some body)
    then show ?thesis
      using Cons.IH[of "buf @ log_prefix env (ticks h) @ body @ [nl]" "h\<lparr>ticks := Suc (ticks h)\<rparr>"]
      by (simp add: put_section_def)
  qed
qed

lemma prepare_message_layout:
  "prepare_message env e h =
     (render env (ticks h) (block_sections env e),
      h\<lparr>ticks := ticks h + length (filter (\<lambda>s. s \<noteq> None) (block_sections env e))\<rparr>)"
proof -
  have "prepare_message env e h =
          foldl (\<lambda>bh s. put_section env s bh) ([], h) (block_sections env e)"
    by (simp add: prepare_message_def block_sections_def append_message_eq append_detail_eq
        append_hint_eq append_query_eq append_context_eq append_location_eq
        append_backtrace_eq append_statement_eq)
  then show ?thesis
    by (simp only: put_sections_render append_Nil)
qed

subsection \<open>The sample event\<close>

lemma printf_d_4242: "printf_d 4242 = ''4242''"
  by (simp add: printf_d_def digits.simps digit_char_def)

lemma printf_03d_123: "printf_03d 123 = ''123''"
  by (simp add: printf_03d_def digits.simps digit_char_def)

lemma c_div_sample: "c_div 123456 1000 = 123"
  by (simp add: c_div_def)

lemma log_time_text_sample: "log_time_text sample_env k = ''2022-04-15 05:20:00.123 UTC''"
  by (simp add: log_time_text_def get_formatted_intercept_log_time_def
      sample_env_def c_div_sample printf_03d_123)

lemma log_prefix_sample: "log_prefix sample_env k = ''2022-04-15 05:20:00.123 UTC [4242] ''"
proof -
  have "MyProcPid sample_env = 4242" by (simp add: sample_env_def)
  then show ?thesis by (simp add: log_prefix_def log_time_text_sample printf_d_4242)
qed

lemma block_sample:
  "fst (prepare_message sample_env sample_edata sample_host) =
     ''2022-04-15 05:20:00.123 UTC [4242] ERROR:  disk full'' @ [nl]"
proof -
  have dq: "debug_query_string sample_env = None" by (simp add: sample_env_def)
  show ?thesis
  by (simp add: prepare_message_layout block_sections_def log_prefix_sample primary_text_def
     position_suffix_def detail_section_def context_section_def location_section_def labelled_def
     intercept_log_severity_def elevel_defs sample_edata_def dq tab_escape_def)
qed

lemma sample_env_fields:
  "debug_query_string sample_env = None" "MyProcPid sample_env = 4242"
  by (simp_all add: sample_env_def)

lemmas sample_block_simps =
  block_sections_def log_prefix_sample primary_text_def position_suffix_def detail_section_def
  context_section_def location_section_def labelled_def intercept_log_severity_def elevel_defs
  sample_edata_def sample_env_fields tab_escape_def

lemma printf_d_small: "printf_d 5 = ''5''" "printf_d 7 = ''7''"
  by (simp_all add: printf_d_def digits.simps digit_char_def)

subsection \<open>The primary message line\<close>

text \<open>
  C9: the block starts with the primary message line, which ends (before its newline)
  with \<open> at character N\<close>, where \<open>N\<close> is the cursor position if that is positive, else
  the internal position if that is positive; with neither positive the line has no such
  suffix. With cursor position 5 and internal position 9 the suffix is
  \<open> at character 5\<close>.
\<close>

theorem position_suffix_cursor_first:
  "fst (prepare_message env e h) =
     log_prefix env (ticks h) @ primary_text env e @
     (if 0 < cursorpos e then '' at character '' @ printf_d (cursorpos e)
      else if 0 < internalpos e then '' at character '' @ printf_d (internalpos e)
      else []) @
     [nl] @ render env (Suc (ticks h)) (tl (block_sections env e)) \<and>
   (cursorpos e = 5 \<and> internalpos e = 9 \<longrightarrow>
      fst (prepare_message env e h) =
        log_prefix env (ticks h) @ primary_text env e @ '' at character 5'' @
        [nl] @ render env (Suc (ticks h)) (tl (block_sections env e)))"
proof -
  have five: "printf_d 5 = ''5''"
    by (simp add: printf_d_def digits.simps digit_char_def)
  show ?thesis
    by (simp add: prepare_message_layout block_sections_def position_suffix_def five)
qed

text \<open>
  The sample event with cursor position 5 and internal position 9.
\<close>

theorem position_suffix_cursor_first_witness:
  "cursorpos (sample_edata\<lparr>cursorpos := 5, internalpos := 9\<rparr>) = 5 \<and>
   internalpos (sample_edata\<lparr>cursorpos := 5, internalpos := 9\<rparr>) = 9 \<and>
   fst (prepare_message sample_env (sample_edata\<lparr>cursorpos := 5, internalpos := 9\<rparr>)
         sample_host) =
     ''2022-04-15 05:20:00.123 UTC [4242] ERROR:  disk full at character 5'' @ [nl]"
  using position_suffix_cursor_first[of sample_env
      "sample_edata\<lparr>cursorpos := 5, internalpos := 9\<rparr>" sample_host]
  by (simp add: sample_block_simps printf_d_small)

subsection \<open>Sections by label\<close>

lemma has_label_None: "has_label label None = False"
  by (simp add: has_label_def)

lemma has_label_Some: "has_label label (Some body) = prefix label body"
  by (simp add: has_label_def)

lemma has_label_labelled:
  "has_label label (labelled label' x) =
     (case x of None \<Rightarrow> False | Some t \<Rightarrow> prefix label (label' @ tab_escape t))"
  by (cases x) (simp_all add: labelled_def has_label_def)

lemma severity_not_DETAIL: "\<not> prefix ''DETAIL:  '' (intercept_log_severity lev @ rest)"
  by (simp add: intercept_log_severity_def)

lemma severity_not_LOCATION: "\<not> prefix ''LOCATION:  '' (intercept_log_severity lev @ rest)"
  by (simp add: intercept_log_severity_def)

lemma primary_not_DETAIL:
  "\<not> has_label ''DETAIL:  '' (Some (primary_text env e @ position_suffix e))"
  using severity_not_DETAIL by (simp add: has_label_Some primary_text_def)

lemma primary_not_LOCATION:
  "\<not> has_label ''LOCATION:  '' (Some (primary_text env e @ position_suffix e))"
  using severity_not_LOCATION by (simp add: has_label_Some primary_text_def)

lemma location_not_DETAIL: "\<not> has_label ''DETAIL:  '' (location_section e)"
  by (simp add: location_section_def has_label_def split: option.split)

lemma detail_not_LOCATION: "\<not> has_label ''LOCATION:  '' (detail_section e)"
  by (simp add: detail_section_def has_label_labelled split: option.split)

lemma context_not_DETAIL: "\<not> has_label ''DETAIL:  '' (context_section e)"
  by (simp add: context_section_def has_label_labelled split: option.split)

lemma context_not_LOCATION: "\<not> has_label ''LOCATION:  '' (context_section e)"
  by (simp add: context_section_def has_label_labelled split: option.split)

lemma other_not_DETAIL:
  "\<not> has_label ''DETAIL:  '' (labelled ''HINT:  '' x)"
  "\<not> has_label ''DETAIL:  '' (labelled ''QUERY:  '' x)"
  "\<not> has_label ''DETAIL:  '' (labelled ''BACKTRACE:  '' x)"
  "\<not> has_label ''DETAIL:  '' (labelled ''STATEMENT:  '' x)"
  by (simp_all add: has_label_labelled split: option.split)

lemma other_not_LOCATION:
  "\<not> has_label ''LOCATION:  '' (labelled ''HINT:  '' x)"
  "\<not> has_label ''LOCATION:  '' (labelled ''QUERY:  '' x)"
  "\<not> has_label ''LOCATION:  '' (labelled ''BACKTRACE:  '' x)"
  "\<not> has_label ''LOCATION:  '' (labelled ''STATEMENT:  '' x)"
  by (simp_all add: has_label_labelled split: option.split)

lemma detail_section_cases:
  "detail_section e =
     (case detail_log e of
        Some dl \<Rightarrow> Some (''DETAIL:  '' @ tab_escape dl)
      | None \<Rightarrow>
          (case detail e of
             Some d \<Rightarrow> Some (''DETAIL:  '' @ tab_escape d)
           | None \<Rightarrow> None))"
  by (simp add: detail_section_def labelled_def split: option.split)

lemma detail_sections:
  "filter (has_label ''DETAIL:  '') (block_sections env e) =
     (case detail_section e of None \<Rightarrow> [] | Some body \<Rightarrow> [Some body])"
proof -
  have "has_label ''DETAIL:  '' (detail_section e) = (detail_section e \<noteq> None)"
    by (simp add: detail_section_cases has_label_def split: option.split)
  then show ?thesis
    by (simp add: block_sections_def primary_not_DETAIL other_not_DETAIL context_not_DETAIL
        location_not_DETAIL split: option.split)
qed

lemma location_sections:
  "filter (has_label ''LOCATION:  '') (block_sections env e) =
     (case location_section e of None \<Rightarrow> [] | Some body \<Rightarrow> [Some body])"
proof -
  have "has_label ''LOCATION:  '' (location_section e) = (location_section e \<noteq> None)"
    by (simp add: location_section_def has_label_def split: option.split)
  then show ?thesis
    by (simp add: block_sections_def primary_not_LOCATION other_not_LOCATION
        context_not_LOCATION detail_not_LOCATION split: option.split)
qed

text \<open>
  C7: the buffer is the layout of the block's sections, and the sections labelled
  \<open>DETAIL\<close> are: exactly one, made from the detail-log text, when that is present
  (whether or not the plain detail text is present too); exactly one, made from the plain
  detail text, when only that is present; none when both are absent.
\<close>

theorem detail_log_preferred_over_detail:
  "fst (prepare_message env e h) = render env (ticks h) (block_sections env e) \<and>
   filter (has_label ''DETAIL:  '') (block_sections env e) =
     (case detail_log e of
        Some dl \<Rightarrow> [Some (''DETAIL:  '' @ tab_escape dl)]
      | None \<Rightarrow>
          (case detail e of
             Some d \<Rightarrow> [Some (''DETAIL:  '' @ tab_escape d)]
           | None \<Rightarrow> []))"
  by (simp add: prepare_message_layout detail_sections detail_section_cases split: option.split)

text \<open>
  The sample event with both a detail text and a detail-log text: one \<open>DETAIL\<close> line,
  from the detail-log text.
\<close>

theorem detail_log_preferred_over_detail_witness:
  "filter (has_label ''DETAIL:  '')
     (block_sections sample_env
        (sample_edata\<lparr>detail := Some ''plain'', detail_log := Some ''for the log''\<rparr>)) =
     [Some ''DETAIL:  for the log''] \<and>
   fst (prepare_message sample_env
         (sample_edata\<lparr>detail := Some ''plain'', detail_log := Some ''for the log''\<rparr>)
         sample_host) =
     ''2022-04-15 05:20:00.123 UTC [4242] ERROR:  disk full'' @ [nl] @
     ''2022-04-15 05:20:00.123 UTC [4242] DETAIL:  for the log'' @ [nl]"
  using detail_log_preferred_over_detail[of sample_env
      "sample_edata\<lparr>detail := Some ''plain'', detail_log := Some ''for the log''\<rparr>" sample_host]
  by (simp add: sample_block_simps)

text \<open>
  C3, as stated: a location section \<open>function, file:line\<close> whenever the function name is
  present, and no location section only when neither name is present. This fails for
  an event with a function name and no file name: the block of the sample event with the
  function name \<open>main\<close> is the primary message line alone.
\<close>

theorem location_with_function_only_counterexample:
  "funcname (sample_edata\<lparr>funcname := Some ''main'', lineno := 7\<rparr>) = Some ''main'' \<and>
   fst (prepare_message sample_env (sample_edata\<lparr>funcname := Some ''main'', lineno := 7\<rparr>)
         sample_host) =
     ''2022-04-15 05:20:00.123 UTC [4242] ERROR:  disk full'' @ [nl]"
  by (simp add: prepare_message_layout sample_block_simps)

text \<open>
  C3, amended: the buffer is the layout of the block's sections, and the sections labelled
  \<open>LOCATION\<close> are: exactly one of the form \<open>function, file:line\<close> when both the function
  name and the file name are present; exactly one of the form \<open>file:line\<close> when the file
  name is present and the function name is not; none when the file name is absent,
  whether or not a function name is present.
\<close>

theorem location_needs_file_name:
  "fst (prepare_message env e h) = render env (ticks h) (block_sections env e) \<and>
   filter (has_label ''LOCATION:  '') (block_sections env e) =
     (case filename e of
        None \<Rightarrow> []
      | Some file \<Rightarrow>
          (case funcname e of
             Some func \<Rightarrow>
               [Some (''LOCATION:  '' @ func @ '', '' @ file @ '':'' @ printf_d (lineno e))]
           | None \<Rightarrow> [Some (''LOCATION:  '' @ file @ '':'' @ printf_d (lineno e))]))"
  by (simp add: prepare_message_layout location_sections location_section_def
      split: option.split)

text \<open>
  The sample event with the function name \<open>main\<close>, with and without the file name
  \<open>x.c\<close>.
\<close>

theorem location_needs_file_name_witness:
  "filter (has_label ''LOCATION:  '')
     (block_sections sample_env
        (sample_edata\<lparr>funcname := Some ''main'', filename := Some ''x.c'', lineno := 7\<rparr>)) =
     [Some ''LOCATION:  main, x.c:7''] \<and>
   fst (prepare_message sample_env
         (sample_edata\<lparr>funcname := Some ''main'', filename := Some ''x.c'', lineno := 7\<rparr>)
         sample_host) =
     ''2022-04-15 05:20:00.123 UTC [4242] ERROR:  disk full'' @ [nl] @
     ''2022-04-15 05:20:00.123 UTC [4242] LOCATION:  main, x.c:7'' @ [nl] \<and>
   filter (has_label ''LOCATION:  '')
     (block_sections sample_env (sample_edata\<lparr>funcname := Some ''main'', lineno := 7\<rparr>)) = []"
  using location_needs_file_name[of sample_env
      "sample_edata\<lparr>funcname := Some ''main'', filename := Some ''x.c'', lineno := 7\<rparr>"
      sample_host]
    location_needs_file_name[of sample_env
      "sample_edata\<lparr>funcname := Some ''main'', lineno := 7\<rparr>" sample_host]
  by (simp add: sample_block_simps printf_d_small)

section \<open>Properties of the hook\<close>

lemma trace_set_errno: "trace (set_errno e h) = trace h"
  by (simp add: set_errno_def split: option.split)

lemma write_console_trace:
  "trace (write_console env line len h) = trace h @ [Sys_write STDERR_FILENO line len]"
  by (simp add: write_console_def split_def trace_set_errno)

lemma write_file_trace:
  "trace (state_of (write_file g env line len lev h)) =
     trace h @
     (let path = take (MAXPGPATH * 2 - 1)
                   (log_directory g @ ''/'' @ intercept_log_severity lev @ ''.log'');
          fd = fst (os_open env path)
      in if fd < 0 then [Sys_open path] else [Sys_open path, Sys_write fd line len])"
  by (simp add: write_file_def Let_def split_def trace_set_errno)

lemma prepare_and_emit_trace:
  "trace (state_of (prepare_and_emit_intercept_log_message g env e h)) =
     trace h @ routed_calls g env e (fst (prepare_message env e h))"
  by (simp add: prepare_and_emit_intercept_log_message_def prepare_message_layout
      write_console_trace write_file_trace routed_calls_def Let_def)

lemma routed_calls_not_Nil: "routed_calls g env e block \<noteq> []"
  by (simp add: routed_calls_def Let_def)

lemma intercept_log_skip:
  assumes "(case orig of Some hook \<Rightarrow> hook e (hst w) | None \<Rightarrow> Returned (hst w)) = Returned h1"
    and "in_intercept_log_hook w \<or> log_level g = LOG_LEVEL_NONE \<or> elevel e \<noteq> log_level g"
  shows "intercept_log orig g env e w = Returned (w\<lparr>hst := h1\<rparr>)"
  using assms by (auto simp add: intercept_log_def Let_def)

lemma intercept_log_process:
  assumes "(case orig of Some hook \<Rightarrow> hook e (hst w) | None \<Rightarrow> Returned (hst w)) = Returned h1"
    and "\<not> in_intercept_log_hook w" and "log_level g \<noteq> LOG_LEVEL_NONE"
    and "elevel e = log_level g"
  shows "intercept_log orig g env e w =
     (case prepare_and_emit_intercept_log_message g env e h1 of
        Raised r h \<Rightarrow> Raised r \<lparr>in_intercept_log_hook = True, hst = h\<rparr>
      | Returned h \<Rightarrow> Returned \<lparr>in_intercept_log_hook = False, hst = h\<rparr>)"
  using assms by (auto simp add: intercept_log_def Let_def split: outcome.split)

lemma intercept_log_process_trace:
  assumes "(case orig of Some hook \<Rightarrow> hook e (hst w) | None \<Rightarrow> Returned (hst w)) = Returned h1"
    and "\<not> in_intercept_log_hook w" and "log_level g \<noteq> LOG_LEVEL_NONE"
    and "elevel e = log_level g"
  shows "trace (hst (state_of (intercept_log orig g env e w))) =
           trace h1 @ routed_calls g env e (fst (prepare_message env e h1))"
proof -
  have "hst (state_of (intercept_log orig g env e w)) =
          state_of (prepare_and_emit_intercept_log_message g env e h1)"
    by (simp add: intercept_log_process[OF assms] split: outcome.split)
  then show ?thesis by (simp add: prepare_and_emit_trace)
qed

text \<open>
  C4: once the previously installed hook (if any) has returned, \<^const>\<open>intercept_log\<close>
  does nothing more when the reentrancy flag is set, or the watched severity is the
  disabled sentinel, or the event's severity differs from the watched severity; otherwise
  the event is formatted and routed: the system calls that route the formatted block are
  issued. So the event is processed if and only if \<^const>\<open>shouldProcess\<close> holds.
\<close>

theorem intercept_log_filter:
  assumes "(case orig of Some hook \<Rightarrow> hook e (hst w) | None \<Rightarrow> Returned (hst w)) = Returned h1"
  shows "(\<not> shouldProcess e g (in_intercept_log_hook w) \<longrightarrow>
            intercept_log orig g env e w = Returned (w\<lparr>hst := h1\<rparr>)) \<and>
         (shouldProcess e g (in_intercept_log_hook w) \<longrightarrow>
            trace (hst (state_of (intercept_log orig g env e w))) =
              trace h1 @ routed_calls g env e (fst (prepare_message env e h1))) \<and>
         (shouldProcess e g (in_intercept_log_hook w) \<longleftrightarrow>
            trace (hst (state_of (intercept_log orig g env e w))) \<noteq> trace h1)"
proof (cases "shouldProcess e g (in_intercept_log_hook w)")
  case True
  then have c: "\<not> in_intercept_log_hook w" "log_level g \<noteq> LOG_LEVEL_NONE"
    "elevel e = log_level g"
    by (simp_all add: shouldProcess_def)
  show ?thesis
    using True intercept_log_process_trace[OF assms c] routed_calls_not_Nil[of g env e]
    by simp
next
  case False
  then have "in_intercept_log_hook w \<or> log_level g = LOG_LEVEL_NONE \<or>
      elevel e \<noteq> log_level g"
    by (simp add: shouldProcess_def)
  from intercept_log_skip[OF assms this] False show ?thesis by simp
qed

text \<open>
  The sample event, watched at \<open>ERROR\<close> and routed to the console.
\<close>

theorem intercept_log_filter_witness:
  "shouldProcess sample_edata console_guc (in_intercept_log_hook sample_world) \<and>
   trace (hst (state_of (intercept_log None console_guc sample_env sample_edata sample_world))) =
     [Sys_write 2 (''2022-04-15 05:20:00.123 UTC [4242] ERROR:  disk full'' @ [nl]) 53]"
proof -
  have h: "(case None of Some hook \<Rightarrow> hook sample_edata (hst sample_world)
            | None \<Rightarrow> Returned (hst sample_world)) = Returned sample_host"
    by (simp add: sample_world_def)
  have s: "shouldProcess sample_edata console_guc (in_intercept_log_hook sample_world)"
    by (simp add: shouldProcess_def sample_edata_def console_guc_def sample_world_def elevel_defs)
  have r: "routed_calls console_guc sample_env sample_edata
            (''2022-04-15 05:20:00.123 UTC [4242] ERROR:  disk full'' @ [nl]) =
          [Sys_write 2 (''2022-04-15 05:20:00.123 UTC [4242] ERROR:  disk full'' @ [nl]) 53]"
    by (simp add: routed_calls_def console_guc_def STDERR_FILENO_def)
  have t: "trace sample_host = []" by (simp add: sample_host_def)
  show ?thesis
    using intercept_log_filter[OF h, of console_guc sample_env] s
    by (simp only: block_sample r t append_Nil simp_thms)
qed

text \<open>
  C10: \<open>LOG_SERVER_ONLY\<close> and \<open>WARNING_CLIENT_ONLY\<close> are not among the values of
  \<^const>\<open>log_level_options\<close>, so under every setting taken from that table an event of
  either severity passes through \<^const>\<open>intercept_log\<close> with nothing formatted or written
  (only the previously installed hook has acted), although \<^const>\<open>intercept_log_severity\<close>
  has a label for both.
\<close>

theorem log_only_severities_never_intercepted:
  assumes "log_level g \<in> set (map (\<lambda>(name, val, hidden). val) log_level_options)"
    and "elevel e = LOG_SERVER_ONLY \<or> elevel e = WARNING_CLIENT_ONLY"
    and "(case orig of Some hook \<Rightarrow> hook e (hst w) | None \<Rightarrow> Returned (hst w)) = Returned h1"
  shows "intercept_log orig g env e w = Returned (w\<lparr>hst := h1\<rparr>) \<and>
         LOG_SERVER_ONLY \<notin> set (map (\<lambda>(name, val, hidden). val) log_level_options) \<and>
         WARNING_CLIENT_ONLY \<notin> set (map (\<lambda>(name, val, hidden). val) log_level_options) \<and>
         intercept_log_severity LOG_SERVER_ONLY = ''LOG'' \<and>
         intercept_log_severity WARNING_CLIENT_ONLY = ''WARNING''"
proof -
  have n1: "LOG_SERVER_ONLY \<notin> set (map (\<lambda>(name, val, hidden). val) log_level_options)"
    by (simp add: log_level_options_def elevel_defs)
  have n2: "WARNING_CLIENT_ONLY \<notin> set (map (\<lambda>(name, val, hidden). val) log_level_options)"
    by (simp add: log_level_options_def elevel_defs)
  from assms(1,2) n1 n2 have "elevel e \<noteq> log_level g" by metis
  then have "intercept_log orig g env e w = Returned (w\<lparr>hst := h1\<rparr>)"
    using intercept_log_skip[OF assms(3)] by simp
  then show ?thesis
    using n1 n2 by (simp add: intercept_log_severity_def elevel_defs)
qed

text \<open>
  A \<open>LOG_SERVER_ONLY\<close> event under the setting \<open>log\<close>.
\<close>

theorem log_only_severities_never_intercepted_witness:
  "log_level (console_guc\<lparr>log_level := LOG\<rparr>)
     \<in> set (map (\<lambda>(name, val, hidden). val) log_level_options) \<and>
   elevel (sample_edata\<lparr>elevel := LOG_SERVER_ONLY\<rparr>) = LOG_SERVER_ONLY \<and>
   intercept_log None (console_guc\<lparr>log_level := LOG\<rparr>) sample_env
     (sample_edata\<lparr>elevel := LOG_SERVER_ONLY\<rparr>) sample_world = Returned sample_world"
proof -
  have m: "log_level (console_guc\<lparr>log_level := LOG\<rparr>)
             \<in> set (map (\<lambda>(name, val, hidden). val) log_level_options)"
    by (simp add: log_level_options_def)
  have s: "elevel (sample_edata\<lparr>elevel := LOG_SERVER_ONLY\<rparr>) = LOG_SERVER_ONLY \<or>
           elevel (sample_edata\<lparr>elevel := LOG_SERVER_ONLY\<rparr>) = WARNING_CLIENT_ONLY"
    by simp
  have h: "(case (None :: emit_log_hook_type option) of
              Some hook \<Rightarrow> hook (sample_edata\<lparr>elevel := LOG_SERVER_ONLY\<rparr>) (hst sample_world)
            | None \<Rightarrow> Returned (hst sample_world)) = Returned (hst sample_world)"
    by simp
  show ?thesis
    using log_only_severities_never_intercepted[OF m s h, of sample_env] m
    by simp
qed

subsection \<open>The reentrancy flag\<close>

text \<open>
  While the flag is set the hook does nothing; a call that starts with the flag clear
  and returns leaves it clear; a call that starts with the flag clear and raises leaves
  it set, since the assignment after \<^verbatim>\<open>prepare_and_emit_intercept_log_message\<close> is not
  reached.
\<close>

lemma write_file_open_fails:
  assumes "fst (os_open env (take (MAXPGPATH * 2 - 1)
             (log_directory g @ ''/'' @ intercept_log_severity lev @ ''.log''))) < 0"
  shows "has_raised (write_file g env line len lev h)"
  using assms by (simp add: write_file_def Let_def split_def)

lemma prepare_and_emit_to_file:
  "log_directory g \<noteq> [] \<Longrightarrow>
   prepare_and_emit_intercept_log_message g env e h =
     write_file g env (fst (prepare_message env e h))
       (int (length (fst (prepare_message env e h)))) (elevel e) (snd (prepare_message env e h))"
  by (simp add: prepare_and_emit_intercept_log_message_def split_def Let_def)

lemma intercept_log_flag_set:
  "in_intercept_log_hook w \<Longrightarrow> intercept_log None g env e w = Returned w"
  using intercept_log_skip[where orig = None and e = e and w = w and ?h1.0 = "hst w"
      and g = g and env = env]
  by simp

lemma intercept_log_raise_keeps_flag:
  assumes "intercept_log None g env e w = Raised r w'" and "\<not> in_intercept_log_hook w"
  shows "in_intercept_log_hook w'"
  using assms
  by (auto simp add: intercept_log_def Let_def split: if_splits outcome.splits)

lemma intercept_log_return_clears_flag:
  assumes "intercept_log None g env e w = Returned w'" and "\<not> in_intercept_log_hook w"
  shows "\<not> in_intercept_log_hook w'"
  using assms
  by (auto simp add: intercept_log_def Let_def split: if_splits outcome.splits)

text \<open>
  C2 says that the flag is cleared after every event, also when the file cannot be
  opened or written, so that later matching events are processed. On the sample inputs it
  is not: with the flag clear and a log directory that cannot be opened, the hook raises
  and leaves the flag set, and the same event, which \<^const>\<open>shouldProcess\<close> accepts under
  a clear flag, is then dropped even when the operating system no longer fails.
\<close>

theorem flag_stays_set_after_failed_open:
  "\<not> in_intercept_log_hook sample_world \<and>
   has_raised (intercept_log None file_guc failing_open_env sample_edata sample_world) \<and>
   in_intercept_log_hook
     (state_of (intercept_log None file_guc failing_open_env sample_edata sample_world)) \<and>
   shouldProcess sample_edata file_guc False \<and>
   intercept_log None file_guc sample_env sample_edata
     (state_of (intercept_log None file_guc failing_open_env sample_edata sample_world)) =
   Returned (state_of (intercept_log None file_guc failing_open_env sample_edata sample_world))"
proof -
  have c: "\<not> in_intercept_log_hook sample_world" "log_level file_guc \<noteq> LOG_LEVEL_NONE"
    "elevel sample_edata = log_level file_guc"
    by (simp_all add: sample_world_def file_guc_def sample_edata_def elevel_defs)
  have h: "(case None of Some hook \<Rightarrow> hook sample_edata (hst sample_world)
            | None \<Rightarrow> Returned (hst sample_world)) = Returned sample_host"
    by (simp add: sample_world_def)
  have o1: "os_open failing_open_env ''/var/tmp/intercepted/ERROR.log'' = (- 1, Some 2)"
    by (simp add: failing_open_env_def sample_env_def)
  have dir: "log_directory file_guc \<noteq> []" by (simp add: file_guc_def)
  have lev: "elevel sample_edata = ERROR" by (simp add: sample_edata_def)
  have "fst (os_open failing_open_env (take (MAXPGPATH * 2 - 1)
          (log_directory file_guc @ ''/'' @ intercept_log_severity ERROR @ ''.log''))) < 0"
    unfolding sample_path by (simp add: o1)
  then have r: "has_raised (prepare_and_emit_intercept_log_message file_guc failing_open_env
             sample_edata sample_host)"
    by (simp only: prepare_and_emit_to_file[OF dir] lev write_file_open_fails)
  have e: "intercept_log None file_guc failing_open_env sample_edata sample_world =
            (case prepare_and_emit_intercept_log_message file_guc failing_open_env
                    sample_edata sample_host of
               Raised r h \<Rightarrow> Raised r \<lparr>in_intercept_log_hook = True, hst = h\<rparr>
             | Returned h \<Rightarrow> Returned \<lparr>in_intercept_log_hook = False, hst = h\<rparr>)"
    by (rule intercept_log_process[OF h c])
  obtain rep h' where "prepare_and_emit_intercept_log_message file_guc failing_open_env
      sample_edata sample_host = Raised rep h'"
    using r
    by (cases "prepare_and_emit_intercept_log_message file_guc failing_open_env
          sample_edata sample_host") simp_all
  then have raised:
      "has_raised (intercept_log None file_guc failing_open_env sample_edata sample_world)"
    and flag: "in_intercept_log_hook
      (state_of (intercept_log None file_guc failing_open_env sample_edata sample_world))"
    by (simp_all add: e)
  have sp: "shouldProcess sample_edata file_guc False"
    using c by (simp add: shouldProcess_def)
  show ?thesis
    using c(1) raised flag sp intercept_log_flag_set[OF flag] by simp
qed

end
